theory Spec2Isabelle
  imports Complex_Main "HOL-Library.AList"
begin

section \<open>Data model of \<^verbatim>\<open>lavaMase/filters.py\<close>\<close>

text \<open>
  Python floats are only stored, copied and tested for truthiness in this module; no
  arithmetic is done on them. They are modelled as \<^typ>\<open>real\<close>: \<open>0\<close> stands for the
  falsy floats \<^verbatim>\<open>0.0\<close> and \<^verbatim>\<open>-0.0\<close>, every other real for a truthy float.
  A value of type \<^verbatim>\<open>float | None\<close> is a \<^typ>\<open>real option\<close>, \<open>None\<close> being Python's
  \<^verbatim>\<open>None\<close>.

  A Python \<^verbatim>\<open>dict\<close> is an association list in insertion order. Assigning to a key
  (\<^verbatim>\<open>d[k] = v\<close>) is \<^const>\<open>AList.update\<close>: the value is replaced in place when the key
  exists and the pair is appended otherwise, which is what Python does.
\<close>

type_synonym pyfloat = "real option"

type_synonym 'v dict = "(string \<times> 'v) list"

text \<open>\<^verbatim>\<open>d.get(key)\<close>: the value under the key, \<^verbatim>\<open>None\<close> when the key is missing.\<close>

definition dict_get :: "pyfloat dict \<Rightarrow> string \<Rightarrow> pyfloat" where
  "dict_get d key = (case map_of d key of Some v \<Rightarrow> v | None \<Rightarrow> None)"

text \<open>\<^verbatim>\<open>d.get(key, default)\<close>.\<close>

definition dict_get_default :: "'v dict \<Rightarrow> string \<Rightarrow> 'v \<Rightarrow> 'v" where
  "dict_get_default d key dflt = (case map_of d key of Some v \<Rightarrow> v | None \<Rightarrow> dflt)"

text \<open>\<^verbatim>\<open>d.update(other)\<close>: every item of \<open>other\<close>, in its order, is assigned into \<open>d\<close>.\<close>

definition dict_update :: "'v dict \<Rightarrow> 'v dict \<Rightarrow> 'v dict" where
  "dict_update d other = fold (\<lambda>(k, v) acc. AList.update k v acc) other d"

subsection \<open>Equalizer\<close>

text \<open>The typed dictionary \<^verbatim>\<open>{"band": int, "gain": float}\<close> of one equalizer band.\<close>

record EqualizerPayload =
  band :: int
  gain :: real

text \<open>The table \<^verbatim>\<open>{n: {"band": n, "gain": 0.0} for n in range(15)}\<close>, keyed by band index.\<close>

definition default_bands :: "(int \<times> EqualizerPayload) list" where
  "default_bands = map (\<lambda>n. (n, \<lparr>band = n, gain = 0\<rparr>)) [0..14]"

text \<open>
  \<^verbatim>\<open>Equalizer._set\<close>: the loop over the supplied entries, skipping (\<^verbatim>\<open>continue\<close>) an
  entry whose band is above 14 or below 0 and storing every other one under its band.
\<close>

definition Equalizer_set_step ::
  "EqualizerPayload \<Rightarrow> (int \<times> EqualizerPayload) list \<Rightarrow> (int \<times> EqualizerPayload) list" where
  "Equalizer_set_step eq table =
     (if band eq > 14 \<or> band eq < 0 then table else AList.update (band eq) eq table)"

definition Equalizer__set :: "EqualizerPayload list \<Rightarrow> (int \<times> EqualizerPayload) list" where
  "Equalizer__set payload = fold Equalizer_set_step payload default_bands"

text \<open>The class holds one attribute, \<^verbatim>\<open>_payload\<close>.\<close>

datatype Equalizer = EqualizerObj (Equalizer_payload: "(int \<times> EqualizerPayload) list")

text \<open>
  \<^verbatim>\<open>Equalizer.__init__\<close>: \<^verbatim>\<open>if payload and len(payload) == 15\<close> uses the supplied
  entries, anything else (\<^verbatim>\<open>None\<close>, the empty list, another length) the default table.
\<close>

definition Equalizer_init :: "EqualizerPayload list option \<Rightarrow> Equalizer" where
  "Equalizer_init payload =
     (case payload of
        Some p \<Rightarrow>
          if p \<noteq> [] \<and> length p = 15 then EqualizerObj (Equalizer__set p)
          else EqualizerObj default_bands
      | None \<Rightarrow> EqualizerObj default_bands)"

text \<open>
  \<^verbatim>\<open>Equalizer.set(**options)\<close>: the keyword arguments are a dictionary whose only
  declared key is \<^verbatim>\<open>bands\<close>, of type \<^verbatim>\<open>list | None\<close>. There is no length test here.
\<close>

definition Equalizer_set :: "EqualizerPayload list option dict \<Rightarrow> Equalizer \<Rightarrow> Equalizer" where
  "Equalizer_set options self =
     (case dict_get_default options ''bands'' None of
        None \<Rightarrow> EqualizerObj default_bands
      | Some payload \<Rightarrow> EqualizerObj (Equalizer__set payload))"

definition Equalizer_reset :: "Equalizer \<Rightarrow> Equalizer" where
  "Equalizer_reset self = EqualizerObj default_bands"

subsection \<open>The eight sparse units\<close>

text \<open>
  Each of these classes holds one attribute, \<^verbatim>\<open>_payload\<close>, a dictionary from wire-format
  field names to \<^verbatim>\<open>float | None\<close>. \<^verbatim>\<open>__init__\<close> stores the dictionary it is given, so
  it is the constructor of the datatype; the property \<^verbatim>\<open>payload\<close> returns a copy of the
  attribute, which is the selector. The keyword arguments of \<^verbatim>\<open>set\<close> are a dictionary.

  \<^verbatim>\<open>Karaoke.set\<close>, \<^verbatim>\<open>Rotation.set\<close>, \<^verbatim>\<open>Distortion.set\<close> and \<^verbatim>\<open>ChannelMix.set\<close>
  build a new dictionary literal with every wire-format key, each value read from the
  caller-facing option and, failing that, from the previous payload with \<^verbatim>\<open>dict.get\<close>.
  \<^verbatim>\<open>Timescale.set\<close>, \<^verbatim>\<open>Tremolo.set\<close>, \<^verbatim>\<open>Vibrato.set\<close> and \<^verbatim>\<open>LowPass.set\<close> call
  \<^verbatim>\<open>self._payload.update(options)\<close>.
\<close>

datatype Karaoke = Karaoke (Karaoke_payload: "pyfloat dict")

definition Karaoke_set :: "pyfloat dict \<Rightarrow> Karaoke \<Rightarrow> Karaoke" where
  "Karaoke_set options self =
     Karaoke
       [(''level'', dict_get_default options ''level'' (dict_get (Karaoke_payload self) ''level'')),
        (''monoLevel'', dict_get_default options ''mono_level'' (dict_get (Karaoke_payload self) ''monoLevel'')),
        (''filterBand'', dict_get_default options ''filter_band'' (dict_get (Karaoke_payload self) ''filterBand'')),
        (''filterWidth'', dict_get_default options ''filter_width'' (dict_get (Karaoke_payload self) ''filterWidth''))]"

definition Karaoke_reset :: "Karaoke \<Rightarrow> Karaoke" where
  "Karaoke_reset self = Karaoke []"

datatype Timescale = Timescale (Timescale_payload: "pyfloat dict")

definition Timescale_set :: "pyfloat dict \<Rightarrow> Timescale \<Rightarrow> Timescale" where
  "Timescale_set options self = Timescale (dict_update (Timescale_payload self) options)"

definition Timescale_reset :: "Timescale \<Rightarrow> Timescale" where
  "Timescale_reset self = Timescale []"

datatype Tremolo = Tremolo (Tremolo_payload: "pyfloat dict")

definition Tremolo_set :: "pyfloat dict \<Rightarrow> Tremolo \<Rightarrow> Tremolo" where
  "Tremolo_set options self = Tremolo (dict_update (Tremolo_payload self) options)"

definition Tremolo_reset :: "Tremolo \<Rightarrow> Tremolo" where
  "Tremolo_reset self = Tremolo []"

datatype Vibrato = Vibrato (Vibrato_payload: "pyfloat dict")

definition Vibrato_set :: "pyfloat dict \<Rightarrow> Vibrato \<Rightarrow> Vibrato" where
  "Vibrato_set options self = Vibrato (dict_update (Vibrato_payload self) options)"

definition Vibrato_reset :: "Vibrato \<Rightarrow> Vibrato" where
  "Vibrato_reset self = Vibrato []"

datatype Rotation = Rotation (Rotation_payload: "pyfloat dict")

definition Rotation_set :: "pyfloat dict \<Rightarrow> Rotation \<Rightarrow> Rotation" where
  "Rotation_set options self =
     Rotation
       [(''rotationHz'', dict_get_default options ''rotation_hz'' (dict_get (Rotation_payload self) ''rotationHz''))]"

definition Rotation_reset :: "Rotation \<Rightarrow> Rotation" where
  "Rotation_reset self = Rotation []"

datatype Distortion = Distortion (Distortion_payload: "pyfloat dict")

definition Distortion_set :: "pyfloat dict \<Rightarrow> Distortion \<Rightarrow> Distortion" where
  "Distortion_set options self =
     Distortion
       [(''sinOffset'', dict_get_default options ''sin_offset'' (dict_get (Distortion_payload self) ''sinOffset'')),
        (''sinScale'', dict_get_default options ''sin_scale'' (dict_get (Distortion_payload self) ''sinScale'')),
        (''cosOffset'', dict_get_default options ''cos_offset'' (dict_get (Distortion_payload self) ''cosOffset'')),
        (''cosScale'', dict_get_default options ''cos_scale'' (dict_get (Distortion_payload self) ''cosScale'')),
        (''tanOffset'', dict_get_default options ''tan_offset'' (dict_get (Distortion_payload self) ''tanOffset'')),
        (''tanScale'', dict_get_default options ''tan_scale'' (dict_get (Distortion_payload self) ''tanScale'')),
        (''offset'', dict_get_default options ''offset'' (dict_get (Distortion_payload self) ''offset'')),
        (''scale'', dict_get_default options ''scale'' (dict_get (Distortion_payload self) ''scale''))]"

definition Distortion_reset :: "Distortion \<Rightarrow> Distortion" where
  "Distortion_reset self = Distortion []"

datatype ChannelMix = ChannelMix (ChannelMix_payload: "pyfloat dict")

definition ChannelMix_set :: "pyfloat dict \<Rightarrow> ChannelMix \<Rightarrow> ChannelMix" where
  "ChannelMix_set options self =
     ChannelMix
       [(''leftToLeft'', dict_get_default options ''left_to_left'' (dict_get (ChannelMix_payload self) ''leftToLeft'')),
        (''leftToRight'', dict_get_default options ''left_to_right'' (dict_get (ChannelMix_payload self) ''leftToRight'')),
        (''rightToLeft'', dict_get_default options ''right_to_left'' (dict_get (ChannelMix_payload self) ''rightToLeft'')),
        (''rightToRight'', dict_get_default options ''right_to_right'' (dict_get (ChannelMix_payload self) ''rightToRight''))]"

definition ChannelMix_reset :: "ChannelMix \<Rightarrow> ChannelMix" where
  "ChannelMix_reset self = ChannelMix []"

datatype LowPass = LowPass (LowPass_payload: "pyfloat dict")

definition LowPass_set :: "pyfloat dict \<Rightarrow> LowPass \<Rightarrow> LowPass" where
  "LowPass_set options self = LowPass (dict_update (LowPass_payload self) options)"

definition LowPass_reset :: "LowPass \<Rightarrow> LowPass" where
  "LowPass_reset self = LowPass []"

subsection \<open>The aggregate \<^verbatim>\<open>Filters\<close>\<close>

text \<open>
  The ten attributes \<^verbatim>\<open>_volume\<close>, \<^verbatim>\<open>_equalizer\<close>, ..., \<^verbatim>\<open>_low_pass\<close>, under the names
  of their read properties.
\<close>

record Filters =
  volume :: pyfloat
  equalizer :: Equalizer
  karaoke :: Karaoke
  timescale :: Timescale
  tremolo :: Tremolo
  vibrato :: Vibrato
  rotation :: Rotation
  distortion :: Distortion
  channel_mix :: ChannelMix
  low_pass :: LowPass

text \<open>
  The keyword arguments of \<^verbatim>\<open>set_filters\<close> and \<^verbatim>\<open>from_filters\<close> are the typed dictionary
  \<^verbatim>\<open>FiltersOptions\<close>: string keys, and values that are a float, a unit object or a bool.
\<close>

datatype FilterOption =
    OFloat real
  | OBool bool
  | OEqualizer Equalizer
  | OKaraoke Karaoke
  | OTimescale Timescale
  | OTremolo Tremolo
  | OVibrato Vibrato
  | ORotation Rotation
  | ODistortion Distortion
  | OChannelMix ChannelMix
  | OLowPass LowPass

text \<open>
  The wire payload \<^verbatim>\<open>FilterPayload\<close>: string keys, and values that are \<^verbatim>\<open>None\<close>, a
  float, a list of equalizer bands or a unit's dictionary.
\<close>

datatype PayloadValue =
    PNone
  | PFloat real
  | PList "EqualizerPayload list"
  | PDict "pyfloat dict"

type_synonym FilterPayload = "PayloadValue dict"

text \<open>
  \<^verbatim>\<open>d.get(key, default)\<close> on a dictionary of mixed values, read at the type the assigned
  attribute has. A value of another type under the key is outside the declared dictionary
  type; the model falls back to the default there.
\<close>

definition typed_get :: "('v \<Rightarrow> 'a option) \<Rightarrow> 'v dict \<Rightarrow> string \<Rightarrow> 'a \<Rightarrow> 'a" where
  "typed_get as d key dflt =
     (case map_of d key of
        None \<Rightarrow> dflt
      | Some v \<Rightarrow> (case as v of Some x \<Rightarrow> x | None \<Rightarrow> dflt))"

fun as_float :: "FilterOption \<Rightarrow> pyfloat option" where
  "as_float (OFloat x) = Some (Some x)"
| "as_float _ = None"

fun as_bool :: "FilterOption \<Rightarrow> bool option" where
  "as_bool (OBool b) = Some b"
| "as_bool _ = None"

fun as_equalizer :: "FilterOption \<Rightarrow> Equalizer option" where
  "as_equalizer (OEqualizer u) = Some u"
| "as_equalizer _ = None"

fun as_karaoke :: "FilterOption \<Rightarrow> Karaoke option" where
  "as_karaoke (OKaraoke u) = Some u"
| "as_karaoke _ = None"

fun as_timescale :: "FilterOption \<Rightarrow> Timescale option" where
  "as_timescale (OTimescale u) = Some u"
| "as_timescale _ = None"

fun as_tremolo :: "FilterOption \<Rightarrow> Tremolo option" where
  "as_tremolo (OTremolo u) = Some u"
| "as_tremolo _ = None"

fun as_vibrato :: "FilterOption \<Rightarrow> Vibrato option" where
  "as_vibrato (OVibrato u) = Some u"
| "as_vibrato _ = None"

fun as_rotation :: "FilterOption \<Rightarrow> Rotation option" where
  "as_rotation (ORotation u) = Some u"
| "as_rotation _ = None"

fun as_distortion :: "FilterOption \<Rightarrow> Distortion option" where
  "as_distortion (ODistortion u) = Some u"
| "as_distortion _ = None"

fun as_channel_mix :: "FilterOption \<Rightarrow> ChannelMix option" where
  "as_channel_mix (OChannelMix u) = Some u"
| "as_channel_mix _ = None"

fun as_low_pass :: "FilterOption \<Rightarrow> LowPass option" where
  "as_low_pass (OLowPass u) = Some u"
| "as_low_pass _ = None"

fun wire_float :: "PayloadValue \<Rightarrow> pyfloat option" where
  "wire_float (PFloat x) = Some (Some x)"
| "wire_float PNone = Some None"
| "wire_float _ = None"

fun wire_list :: "PayloadValue \<Rightarrow> EqualizerPayload list option option" where
  "wire_list (PList bs) = Some (Some bs)"
| "wire_list PNone = Some None"
| "wire_list _ = None"

fun wire_dict :: "PayloadValue \<Rightarrow> pyfloat dict option" where
  "wire_dict (PDict d) = Some d"
| "wire_dict _ = None"

text \<open>The assignments at the head of \<^verbatim>\<open>Filters.__init__\<close>, which \<^verbatim>\<open>_reset\<close> repeats.\<close>

definition Filters__reset :: "Filters \<Rightarrow> Filters" where
  "Filters__reset self =
     \<lparr>volume = None,
      equalizer = Equalizer_init None,
      karaoke = Karaoke [],
      timescale = Timescale [],
      tremolo = Tremolo [],
      vibrato = Vibrato [],
      rotation = Rotation [],
      distortion = Distortion [],
      channel_mix = ChannelMix [],
      low_pass = LowPass []\<rparr>"

definition Filters_reset :: "Filters \<Rightarrow> Filters" where
  "Filters_reset self = Filters__reset self"

definition Filters__create_from :: "FilterPayload \<Rightarrow> Filters \<Rightarrow> Filters" where
  "Filters__create_from data self =
     \<lparr>volume = typed_get wire_float data ''volume'' None,
      equalizer = Equalizer_init (typed_get wire_list data ''equalizer'' None),
      karaoke = Karaoke (typed_get wire_dict data ''karaoke'' []),
      timescale = Timescale (typed_get wire_dict data ''timescale'' []),
      tremolo = Tremolo (typed_get wire_dict data ''tremolo'' []),
      vibrato = Vibrato (typed_get wire_dict data ''vibrato'' []),
      rotation = Rotation (typed_get wire_dict data ''rotation'' []),
      distortion = Distortion (typed_get wire_dict data ''distortion'' []),
      channel_mix = ChannelMix (typed_get wire_dict data ''channelMix'' []),
      low_pass = LowPass (typed_get wire_dict data ''lowPass'' [])\<rparr>"

text \<open>\<^verbatim>\<open>Filters(data=...)\<close>: \<^verbatim>\<open>if data:\<close> hydrates from a dictionary that is not empty.\<close>

definition Filters_init :: "FilterPayload option \<Rightarrow> Filters" where
  "Filters_init data =
     (let self =
        \<lparr>volume = None,
         equalizer = Equalizer_init None,
         karaoke = Karaoke [],
         timescale = Timescale [],
         tremolo = Tremolo [],
         vibrato = Vibrato [],
         rotation = Rotation [],
         distortion = Distortion [],
         channel_mix = ChannelMix [],
         low_pass = LowPass []\<rparr>
      in case data of
           Some d \<Rightarrow> if d \<noteq> [] then Filters__create_from d self else self
         | None \<Rightarrow> self)"

definition Filters__set_with_reset :: "FilterOption dict \<Rightarrow> Filters \<Rightarrow> Filters" where
  "Filters__set_with_reset filters self =
     \<lparr>volume = typed_get as_float filters ''volume'' None,
      equalizer = typed_get as_equalizer filters ''equalizer'' (Equalizer_init None),
      karaoke = typed_get as_karaoke filters ''karaoke'' (Karaoke []),
      timescale = typed_get as_timescale filters ''timescale'' (Timescale []),
      tremolo = typed_get as_tremolo filters ''tremolo'' (Tremolo []),
      vibrato = typed_get as_vibrato filters ''vibrato'' (Vibrato []),
      rotation = typed_get as_rotation filters ''rotation'' (Rotation []),
      distortion = typed_get as_distortion filters ''distortion'' (Distortion []),
      channel_mix = typed_get as_channel_mix filters ''channel_mix'' (ChannelMix []),
      low_pass = typed_get as_low_pass filters ''low_pass'' (LowPass [])\<rparr>"

text \<open>
  \<^verbatim>\<open>Filters.set_filters\<close>. Without \<^verbatim>\<open>reset\<close> the last two attributes are read from the
  keys \<^verbatim>\<open>"channelMix"\<close> and \<^verbatim>\<open>"lowPass"\<close>, as the source has them.
\<close>

definition Filters_set_filters :: "FilterOption dict \<Rightarrow> Filters \<Rightarrow> Filters" where
  "Filters_set_filters filters self =
     (let reset = typed_get as_bool filters ''reset'' False
      in if reset then Filters__set_with_reset filters self
         else
           \<lparr>volume = typed_get as_float filters ''volume'' (volume self),
            equalizer = typed_get as_equalizer filters ''equalizer'' (equalizer self),
            karaoke = typed_get as_karaoke filters ''karaoke'' (karaoke self),
            timescale = typed_get as_timescale filters ''timescale'' (timescale self),
            tremolo = typed_get as_tremolo filters ''tremolo'' (tremolo self),
            vibrato = typed_get as_vibrato filters ''vibrato'' (vibrato self),
            rotation = typed_get as_rotation filters ''rotation'' (rotation self),
            distortion = typed_get as_distortion filters ''distortion'' (distortion self),
            channel_mix = typed_get as_channel_mix filters ''channelMix'' (channel_mix self),
            low_pass = typed_get as_low_pass filters ''lowPass'' (low_pass self)\<rparr>)"

definition Filters_from_filters :: "FilterOption dict \<Rightarrow> Filters" where
  "Filters_from_filters filters = Filters__set_with_reset filters (Filters_init None)"

text \<open>The setter of the property \<^verbatim>\<open>volume\<close>.\<close>

definition Filters_volume_setter :: "real \<Rightarrow> Filters \<Rightarrow> Filters" where
  "Filters_volume_setter v self = self\<lparr>volume := Some v\<rparr>"

text \<open>
  Python's truth value, as \<^verbatim>\<open>not value\<close> tests it: \<^verbatim>\<open>None\<close>, a zero float, an empty list
  and an empty dictionary are false.
\<close>

fun truthy :: "PayloadValue \<Rightarrow> bool" where
  "truthy PNone = False"
| "truthy (PFloat x) = (x \<noteq> 0)"
| "truthy (PList bs) = (bs \<noteq> [])"
| "truthy (PDict d) = (d \<noteq> [])"

text \<open>The dictionary literal at the head of \<^verbatim>\<open>Filters.__call__\<close>.\<close>

definition Filters_full_payload :: "Filters \<Rightarrow> FilterPayload" where
  "Filters_full_payload self =
     [(''volume'', (case volume self of None \<Rightarrow> PNone | Some v \<Rightarrow> PFloat v)),
      (''equalizer'', PList (map snd (Equalizer_payload (equalizer self)))),
      (''karaoke'', PDict (Karaoke_payload (karaoke self))),
      (''timescale'', PDict (Timescale_payload (timescale self))),
      (''tremolo'', PDict (Tremolo_payload (tremolo self))),
      (''vibrato'', PDict (Vibrato_payload (vibrato self))),
      (''rotation'', PDict (Rotation_payload (rotation self))),
      (''distortion'', PDict (Distortion_payload (distortion self))),
      (''channelMix'', PDict (ChannelMix_payload (channel_mix self))),
      (''lowPass'', PDict (LowPass_payload (low_pass self)))]"

text \<open>
  \<^verbatim>\<open>Filters.__call__\<close>: the loop runs over the items of a copy of the payload and deletes
  from the payload every key whose value is false.
\<close>

definition Filters_call_step :: "string \<times> PayloadValue \<Rightarrow> FilterPayload \<Rightarrow> FilterPayload" where
  "Filters_call_step item payload =
     (if \<not> truthy (snd item) then AList.delete (fst item) payload else payload)"

definition Filters_call :: "Filters \<Rightarrow> FilterPayload" where
  "Filters_call self =
     (let payload = Filters_full_payload self
      in fold Filters_call_step payload payload)"

text \<open>
  What every operation of \<^verbatim>\<open>Equalizer\<close> leaves in \<^verbatim>\<open>_payload\<close>: the keys 0 to 14 in
  order, each holding an entry whose \<^verbatim>\<open>band\<close> is its key.
\<close>

definition Equalizer_wf :: "Equalizer \<Rightarrow> bool" where
  "Equalizer_wf e =
     (map fst (Equalizer_payload e) = [0..14] \<and>
      map (\<lambda>p. band (snd p)) (Equalizer_payload e) = [0..14])"

section \<open>Auxiliary facts\<close>

lemma upto_0_14: "[0..(14::int)] = [0,1,2,3,4,5,6,7,8,9,10,11,12,13,14]"
  by (simp add: upto_rec1)

lemma default_bands_keys: "map fst default_bands = [0..14]"
  by (simp add: default_bands_def comp_def)

lemma Equalizer_set_step_keys:
  "map fst t = [0..14] \<Longrightarrow> map fst (Equalizer_set_step eq t) = [0..14]"
  by (simp add: Equalizer_set_step_def update_keys)

lemma fold_set_step_keys:
  "map fst t = [0..14] \<Longrightarrow> map fst (fold Equalizer_set_step p t) = [0..14]"
  by (induction p arbitrary: t) (simp_all add: Equalizer_set_step_keys)

lemma Equalizer__set_keys: "map fst (Equalizer__set p) = [0..14]"
  by (simp add: Equalizer__set_def fold_set_step_keys default_bands_keys)

lemma map_of_default_bands:
  "map_of default_bands k = (if 0 \<le> k \<and> k \<le> 14 then Some \<lparr>band = k, gain = 0\<rparr> else None)"
  unfolding default_bands_def
  by (simp add: map_of_map_restrict restrict_map_def)

lemma map_of_fold_set_step:
  "map_of (fold Equalizer_set_step p t) k =
     (case find (\<lambda>e. band e = k) (rev p) of
        Some e \<Rightarrow> if 0 \<le> k \<and> k \<le> 14 then Some e else map_of t k
      | None \<Rightarrow> map_of t k)"
proof (induction p rule: rev_induct)
  case Nil
  show ?case by simp
next
  case (snoc x xs)
  then show ?case
    by (auto simp: Equalizer_set_step_def update_conv' split: option.splits)
qed

lemma dict_update_map_of_rev:
  "map_of (dict_update d other) = map_of d ++ map_of (rev other)"
  unfolding dict_update_def
proof (induction other rule: rev_induct)
  case Nil
  show ?case by simp
next
  case (snoc x xs)
  obtain k v where x: "x = (k, v)" by (cases x)
  have "map_of (fold (\<lambda>(k, v). AList.update k v) (xs @ [x]) d) =
          (map_of d ++ map_of (rev xs))(k \<mapsto> v)"
    unfolding x by (simp only: fold_append fold_simps comp_apply case_prod_conv update_conv' snoc.IH)
  also have "\<dots> = map_of d ++ map_of (rev (xs @ [x]))"
    unfolding x by (simp only: rev_append rev.simps append.simps map_of.simps fst_conv snd_conv map_add_upd)
  finally show ?case .
qed

lemma map_of_rev_distinct:
  "distinct (map fst xs) \<Longrightarrow> map_of (rev xs) = map_of xs"
  by (subst map_of_inject_set) (simp_all add: distinct_map)

lemma dict_update_map_of:
  "distinct (map fst other) \<Longrightarrow> map_of (dict_update d other) = map_of d ++ map_of other"
  by (simp add: dict_update_map_of_rev map_of_rev_distinct)

lemma delete_filter: "AList.delete k xs = filter (\<lambda>p. fst p \<noteq> k) xs"
  by (induction xs) auto

lemma fold_call_step:
  "fold Filters_call_step ys xs =
     filter (\<lambda>p. fst p \<notin> fst ` {y \<in> set ys. \<not> truthy (snd y)}) xs"
proof (induction ys arbitrary: xs)
  case Nil
  show ?case by simp
next
  case (Cons y ys)
  have "fold Filters_call_step (y # ys) xs =
          filter (\<lambda>p. fst p \<notin> fst ` {y \<in> set ys. \<not> truthy (snd y)}) (Filters_call_step y xs)"
    by (simp add: Cons.IH)
  also have "\<dots> = filter (\<lambda>p. fst p \<notin> fst ` {z \<in> set (y # ys). \<not> truthy (snd z)}) xs"
    unfolding Filters_call_step_def delete_filter
    by (auto intro!: filter_cong)
  finally show ?case .
qed

lemma compact_distinct:
  assumes "distinct (map fst xs)"
  shows "fold Filters_call_step xs xs = filter (\<lambda>p. truthy (snd p)) xs"
proof -
  have "fst p \<notin> fst ` {y \<in> set xs. \<not> truthy (snd y)} \<longleftrightarrow> truthy (snd p)"
    if "p \<in> set xs" for p
  proof
    assume "fst p \<notin> fst ` {y \<in> set xs. \<not> truthy (snd y)}"
    with that show "truthy (snd p)" by force
  next
    assume t: "truthy (snd p)"
    show "fst p \<notin> fst ` {y \<in> set xs. \<not> truthy (snd y)}"
    proof
      assume "fst p \<in> fst ` {y \<in> set xs. \<not> truthy (snd y)}"
      then obtain y where y: "y \<in> set xs" "\<not> truthy (snd y)" "fst y = fst p" by auto
      from assms that y(1) y(3) have "y = p"
        by (metis eq_key_imp_eq_value prod.collapse)
      with t y(2) show False by simp
    qed
  qed
  then show ?thesis
    by (simp add: fold_call_step cong: filter_cong)
qed

lemma full_payload_keys:
  "map fst (Filters_full_payload s) =
     [''volume'', ''equalizer'', ''karaoke'', ''timescale'', ''tremolo'', ''vibrato'',
      ''rotation'', ''distortion'', ''channelMix'', ''lowPass'']"
  by (simp add: Filters_full_payload_def)

lemma Filters_call_filter:
  "Filters_call s = filter (\<lambda>p. truthy (snd p)) (Filters_full_payload s)"
  by (simp add: Filters_call_def Let_def compact_distinct full_payload_keys)

lemma map_of_filter_distinct:
  "distinct (map fst xs) \<Longrightarrow>
   map_of (filter (\<lambda>p. P (snd p)) xs) k =
     (case map_of xs k of None \<Rightarrow> None | Some v \<Rightarrow> if P v then Some v else None)"
proof (induction xs)
  case Nil
  show ?case by simp
next
  case (Cons x xs)
  then show ?case
    by (cases x) (auto split: option.splits simp: map_of_eq_None_iff image_iff dest: map_of_SomeD)
qed

lemma Equalizer__set_own_payload:
  assumes "Equalizer_wf e"
  shows "Equalizer__set (map snd (Equalizer_payload e)) = Equalizer_payload e"
  using assms unfolding Equalizer_wf_def upto_0_14
  apply (cases e)
  apply (clarsimp simp: map_eq_Cons_conv)
  apply (simp add: Equalizer__set_def default_bands_def Equalizer_set_step_def upto_0_14)
  done

lemma fold_set_step_filter:
  "fold Equalizer_set_step (filter (\<lambda>eq. 0 \<le> band eq \<and> band eq \<le> 14) p) t =
   fold Equalizer_set_step p t"
  by (induction p arbitrary: t) (auto simp: Equalizer_set_step_def)

lemma Equalizer_set_step_bands:
  "map (\<lambda>p. band (snd p)) t = map fst t \<Longrightarrow>
   map (\<lambda>p. band (snd p)) (Equalizer_set_step eq t) = map fst (Equalizer_set_step eq t)"
  unfolding Equalizer_set_step_def
  by (induction t) (auto)

lemma fold_set_step_bands:
  "map (\<lambda>p. band (snd p)) t = map fst t \<Longrightarrow>
   map (\<lambda>p. band (snd p)) (fold Equalizer_set_step p t) = map fst (fold Equalizer_set_step p t)"
proof (induction p arbitrary: t)
  case Nil
  then show ?case by simp
next
  case (Cons eq p)
  from Cons.prems
  have "map (\<lambda>p. band (snd p)) (Equalizer_set_step eq t) = map fst (Equalizer_set_step eq t)"
    by (rule Equalizer_set_step_bands)
  from Cons.IH [OF this] show ?case by simp
qed

lemma default_bands_bands: "map (\<lambda>p. band (snd p)) default_bands = map fst default_bands"
  by (simp add: default_bands_def)

lemma Equalizer__set_wf: "Equalizer_wf (EqualizerObj (Equalizer__set p))"
  by (simp add: Equalizer_wf_def Equalizer__set_keys)
     (simp add: Equalizer__set_def fold_set_step_bands default_bands_bands
        fold_set_step_keys default_bands_keys)

lemma default_bands_wf: "Equalizer_wf (EqualizerObj default_bands)"
  by (simp add: Equalizer_wf_def default_bands_bands default_bands_keys)

lemma Equalizer_init_wf: "Equalizer_wf (Equalizer_init payload)"
  by (simp add: Equalizer_init_def Equalizer__set_wf default_bands_wf split: option.splits)

lemma Equalizer_set_wf: "Equalizer_wf (Equalizer_set options e)"
  by (simp add: Equalizer_set_def Equalizer__set_wf default_bands_wf split: option.splits)

lemma Equalizer_reset_wf: "Equalizer_wf (Equalizer_reset e)"
  by (simp add: Equalizer_reset_def default_bands_wf)

lemma map_of_Filters_call:
  "map_of (Filters_call s) key =
     (case map_of (Filters_full_payload s) key of
        None \<Rightarrow> None
      | Some v \<Rightarrow> if truthy v then Some v else None)"
  by (simp add: Filters_call_filter map_of_filter_distinct full_payload_keys)

lemma default_bands_not_Nil: "default_bands \<noteq> []"
  by (simp add: default_bands_def upto_0_14)

lemma Equalizer_wf_not_Nil: "Equalizer_wf e \<Longrightarrow> Equalizer_payload e \<noteq> []"
  by (auto simp: Equalizer_wf_def upto_0_14)

lemma Filters_init_wf: "Equalizer_wf (equalizer (Filters_init data))"
  by (simp add: Filters_init_def Filters__create_from_def Equalizer_init_wf Let_def
      split: option.splits)

lemma Filters_reset_wf: "Equalizer_wf (equalizer (Filters_reset s))"
  by (simp add: Filters_reset_def Filters__reset_def Equalizer_init_wf)

lemma Filters_set_filters_wf:
  assumes "Equalizer_wf (equalizer s)"
    and "\<And>e. map_of filters ''equalizer'' = Some (OEqualizer e) \<Longrightarrow> Equalizer_wf e"
  shows "Equalizer_wf (equalizer (Filters_set_filters filters s))"
proof -
  have "Equalizer_wf (typed_get as_equalizer filters ''equalizer'' d)" if "Equalizer_wf d" for d
  proof (cases "map_of filters ''equalizer''")
    case None
    with that show ?thesis by (simp add: typed_get_def)
  next
    case (Some v)
    with that assms(2) show ?thesis by (cases v) (simp_all add: typed_get_def)
  qed
  with assms(1) show ?thesis
    by (simp add: Filters_set_filters_def Filters__set_with_reset_def Let_def Equalizer_init_wf)
qed

lemma Filters_volume_setter_wf:
  "Equalizer_wf (equalizer s) \<Longrightarrow> Equalizer_wf (equalizer (Filters_volume_setter v s))"
  by (simp add: Filters_volume_setter_def)

lemma full_payload_split:
  "Filters_full_payload s =
     (''volume'', (case volume s of None \<Rightarrow> PNone | Some v \<Rightarrow> PFloat v)) # tl (Filters_full_payload s)"
  by (simp add: Filters_full_payload_def)

lemma tl_full_payload_volume:
  "tl (Filters_full_payload (s\<lparr>volume := v\<rparr>)) = tl (Filters_full_payload s)"
  by (simp add: Filters_full_payload_def)

lemma Filters_call_zero_volume:
  "Filters_call (s\<lparr>volume := (if volume s = Some 0 then None else volume s)\<rparr>) = Filters_call s"
proof -
  let ?s = "s\<lparr>volume := (if volume s = Some 0 then None else volume s)\<rparr>"
  have "Filters_call ?s =
          filter (\<lambda>p. truthy (snd p))
            ((''volume'', (case volume ?s of None \<Rightarrow> PNone | Some v \<Rightarrow> PFloat v)) #
             tl (Filters_full_payload s))"
    by (subst Filters_call_filter, subst full_payload_split) (simp only: tl_full_payload_volume)
  also have "\<dots> =
          filter (\<lambda>p. truthy (snd p))
            ((''volume'', (case volume s of None \<Rightarrow> PNone | Some v \<Rightarrow> PFloat v)) #
             tl (Filters_full_payload s))"
    by (cases "volume s") auto
  also have "\<dots> = Filters_call s"
    by (subst Filters_call_filter, subst full_payload_split) (rule refl)
  finally show ?thesis .
qed

lemma Equalizer_init_own_payload:
  assumes "Equalizer_wf e"
  shows "Equalizer_init (Some (map snd (Equalizer_payload e))) = e"
proof -
  from assms have "length (map fst (Equalizer_payload e)) = 15"
    by (simp add: Equalizer_wf_def upto_0_14)
  then have len: "length (Equalizer_payload e) = 15" by simp
  then have ne: "Equalizer_payload e \<noteq> []" by auto
  show ?thesis
    by (simp add: Equalizer_init_def len ne Equalizer__set_own_payload [OF assms])
qed

lemma hydrate_serialized:
  assumes "Equalizer_wf (equalizer s)"
  shows "Filters_init (Some (Filters_call s)) =
           s\<lparr>volume := (if volume s = Some 0 then None else volume s)\<rparr>"
proof -
  have ne: "Equalizer_payload (equalizer s) \<noteq> []"
    using assms by (rule Equalizer_wf_not_Nil)
  have eq: "map_of (Filters_call s) ''equalizer'' =
              Some (PList (map snd (Equalizer_payload (equalizer s))))"
    using ne by (simp add: map_of_Filters_call Filters_full_payload_def)
  then have nonempty: "Filters_call s \<noteq> []" by auto
  have vol: "typed_get wire_float (Filters_call s) ''volume'' None =
               (if volume s = Some 0 then None else volume s)"
    by (simp add: typed_get_def map_of_Filters_call Filters_full_payload_def split: option.splits)
  have equ: "Equalizer_init (typed_get wire_list (Filters_call s) ''equalizer'' None) = equalizer s"
    by (simp add: typed_get_def eq Equalizer_init_own_payload [OF assms])
  have units:
    "Karaoke (typed_get wire_dict (Filters_call s) ''karaoke'' []) = karaoke s"
    "Timescale (typed_get wire_dict (Filters_call s) ''timescale'' []) = timescale s"
    "Tremolo (typed_get wire_dict (Filters_call s) ''tremolo'' []) = tremolo s"
    "Vibrato (typed_get wire_dict (Filters_call s) ''vibrato'' []) = vibrato s"
    "Rotation (typed_get wire_dict (Filters_call s) ''rotation'' []) = rotation s"
    "Distortion (typed_get wire_dict (Filters_call s) ''distortion'' []) = distortion s"
    "ChannelMix (typed_get wire_dict (Filters_call s) ''channelMix'' []) = channel_mix s"
    "LowPass (typed_get wire_dict (Filters_call s) ''lowPass'' []) = low_pass s"
    by (simp_all add: typed_get_def map_of_Filters_call Filters_full_payload_def)
       (metis Karaoke.collapse Timescale.collapse Tremolo.collapse Vibrato.collapse
          Rotation.collapse Distortion.collapse ChannelMix.collapse LowPass.collapse)+
  show ?thesis
    by (simp add: Filters_init_def nonempty Filters__create_from_def vol equ units)
qed

section \<open>Claims\<close>

subsection \<open>C1: \<^verbatim>\<open>set\<close> on the eight sparse units\<close>

text \<open>
  Claim C1 says that a key absent from the prior payload and from the supplied fields
  stays absent. \<^verbatim>\<open>Karaoke.set()\<close> with no field on the empty payload does not give the
  empty payload back.
\<close>

theorem Karaoke_set_empty_counterexample:
  "Karaoke_payload (Karaoke_set [] (Karaoke [])) \<noteq> Karaoke_payload (Karaoke [])"
  by (simp add: Karaoke_set_def)

text \<open>
  Claim C1, amended. The keyword arguments are a dictionary, so their keys are distinct.
  For Timescale, Tremolo, Vibrato and LowPass the payload after \<^verbatim>\<open>set\<close> is the prior
  payload with the supplied keys overwritten by the supplied values: a supplied key holds
  its supplied value, every other key holds what it held before and an absent one stays
  absent. For Karaoke, Rotation, Distortion and ChannelMix the payload after \<^verbatim>\<open>set\<close>
  has exactly the wire-format keys of the unit, in the order of the source; each holds the
  value supplied for its caller-facing field, or else its prior value, or else \<^verbatim>\<open>None\<close>
  when the prior payload does not have the key.
\<close>

theorem unit_set_payload:
  assumes "distinct (map fst options)"
  shows
  "map_of (Timescale_payload (Timescale_set options ti)) = map_of (Timescale_payload ti) ++ map_of options \<and>
   map_of (Tremolo_payload (Tremolo_set options tr)) = map_of (Tremolo_payload tr) ++ map_of options \<and>
   map_of (Vibrato_payload (Vibrato_set options vi)) = map_of (Vibrato_payload vi) ++ map_of options \<and>
   map_of (LowPass_payload (LowPass_set options lp)) = map_of (LowPass_payload lp) ++ map_of options \<and>
   Karaoke_payload (Karaoke_set options ka) =
     map (\<lambda>(wire, field).
            (wire, case map_of options field of
                     Some v \<Rightarrow> v
                   | None \<Rightarrow> (case map_of (Karaoke_payload ka) wire of Some v \<Rightarrow> v | None \<Rightarrow> None)))
       [(''level'', ''level''), (''monoLevel'', ''mono_level''), (''filterBand'', ''filter_band''), (''filterWidth'', ''filter_width'')] \<and>
   Rotation_payload (Rotation_set options ro) =
     map (\<lambda>(wire, field).
            (wire, case map_of options field of
                     Some v \<Rightarrow> v
                   | None \<Rightarrow> (case map_of (Rotation_payload ro) wire of Some v \<Rightarrow> v | None \<Rightarrow> None)))
       [(''rotationHz'', ''rotation_hz'')] \<and>
   Distortion_payload (Distortion_set options di) =
     map (\<lambda>(wire, field).
            (wire, case map_of options field of
                     Some v \<Rightarrow> v
                   | None \<Rightarrow> (case map_of (Distortion_payload di) wire of Some v \<Rightarrow> v | None \<Rightarrow> None)))
       [(''sinOffset'', ''sin_offset''), (''sinScale'', ''sin_scale''), (''cosOffset'', ''cos_offset''), (''cosScale'', ''cos_scale''), (''tanOffset'', ''tan_offset''), (''tanScale'', ''tan_scale''), (''offset'', ''offset''), (''scale'', ''scale'')] \<and>
   ChannelMix_payload (ChannelMix_set options cm) =
     map (\<lambda>(wire, field).
            (wire, case map_of options field of
                     Some v \<Rightarrow> v
                   | None \<Rightarrow> (case map_of (ChannelMix_payload cm) wire of Some v \<Rightarrow> v | None \<Rightarrow> None)))
       [(''leftToLeft'', ''left_to_left''), (''leftToRight'', ''left_to_right''), (''rightToLeft'', ''right_to_left''), (''rightToRight'', ''right_to_right'')]"
  using assms
  by (simp add: Timescale_set_def Tremolo_set_def Vibrato_set_def LowPass_set_def
      dict_update_map_of Karaoke_set_def Rotation_set_def Distortion_set_def ChannelMix_set_def
      dict_get_default_def dict_get_def)

text \<open>
  Claim C1 (amended) at a concrete input: \<^verbatim>\<open>Tremolo({"frequency": 2.0}).set(depth=0.5)\<close>.
\<close>

theorem unit_set_payload_witness:
  "distinct (map fst [(''depth'', Some (1/2 :: real))]) \<and>
   map_of (Tremolo_payload (Tremolo_set [(''depth'', Some (1/2))] (Tremolo [(''frequency'', Some 2)]))) ''depth''
     = Some (Some (1/2)) \<and>
   map_of (Tremolo_payload (Tremolo_set [(''depth'', Some (1/2))] (Tremolo [(''frequency'', Some 2)]))) ''frequency''
     = Some (Some 2) \<and>
   map_of (Tremolo_payload (Tremolo_set [(''depth'', Some (1/2))] (Tremolo [(''frequency'', Some 2)]))) ''speed''
     = None"
proof -
  have d: "distinct (map fst [(''depth'', Some (1/2 :: real))])" by simp
  from unit_set_payload [OF d, of ti "Tremolo [(''frequency'', Some 2)]"]
  have "map_of (Tremolo_payload (Tremolo_set [(''depth'', Some (1/2))] (Tremolo [(''frequency'', Some 2)]))) =
        map_of (Tremolo_payload (Tremolo [(''frequency'', Some 2)])) ++ map_of [(''depth'', Some (1/2))]"
    by (simp only: simp_thms)
  then show ?thesis by simp
qed

subsection \<open>C2: \<^verbatim>\<open>set_filters\<close> without reset\<close>

text \<open>
  Claim C2 says that \<^verbatim>\<open>set_filters\<close> without \<^verbatim>\<open>reset\<close> replaces each of the ten fields
  present in the update. On the default chain, \<^verbatim>\<open>set_filters(channel_mix=...)\<close> leaves
  the channel mix empty and \<^verbatim>\<open>set_filters(low_pass=...)\<close> leaves the low pass empty:
  this path reads the keys \<^verbatim>\<open>"channelMix"\<close> and \<^verbatim>\<open>"lowPass"\<close>. With \<^verbatim>\<open>reset=True\<close>
  the same \<^verbatim>\<open>channel_mix\<close> option is stored.
\<close>

theorem set_filters_ignores_channel_mix_and_low_pass:
  "channel_mix (Filters_set_filters
      [(''channel_mix'', OChannelMix (ChannelMix [(''leftToLeft'', Some (1/2))]))]
      (Filters_init None)) = ChannelMix [] \<and>
   low_pass (Filters_set_filters
      [(''low_pass'', OLowPass (LowPass [(''smoothing'', Some 20)]))]
      (Filters_init None)) = LowPass [] \<and>
   channel_mix (Filters_set_filters
      [(''channel_mix'', OChannelMix (ChannelMix [(''leftToLeft'', Some (1/2))])), (''reset'', OBool True)]
      (Filters_init None)) = ChannelMix [(''leftToLeft'', Some (1/2))]"
  by (simp add: Filters_set_filters_def Filters__set_with_reset_def typed_get_def Filters_init_def)

subsection \<open>C3: what \<^verbatim>\<open>__call__\<close> omits\<close>

text \<open>
  Claim C3 says that a freshly constructed default chain serializes to the empty payload.
  \<^verbatim>\<open>Filters()()\<close> is not empty: the list of the fifteen default bands is a non-empty
  list, so the key \<^verbatim>\<open>equalizer\<close> stays.
\<close>

theorem default_chain_serialize_counterexample:
  "Filters_call (Filters_init None) \<noteq> []"
  by (simp add: Filters_call_filter Filters_init_def Filters_full_payload_def
      Equalizer_init_def default_bands_not_Nil)

text \<open>
  Claim C3, amended. \<^verbatim>\<open>Filters.__call__\<close> omits the key \<^verbatim>\<open>volume\<close> when the volume
  is unset and the key of each of the eight sparse units when the payload of the unit is
  the empty mapping. The key \<^verbatim>\<open>equalizer\<close> is always emitted, with the fifteen entries
  of the table, whichever operation of \<^verbatim>\<open>Equalizer\<close> produced it; a freshly constructed
  default chain serializes to the payload with the single key \<^verbatim>\<open>equalizer\<close>, holding
  the bands 0 to 14 at gain 0.
\<close>

theorem serialize_omits_empty:
  "map_of (Filters_call (s\<lparr>volume := None\<rparr>)) ''volume'' = None \<and>
   map_of (Filters_call (s\<lparr>karaoke := Karaoke []\<rparr>)) ''karaoke'' = None \<and>
   map_of (Filters_call (s\<lparr>timescale := Timescale []\<rparr>)) ''timescale'' = None \<and>
   map_of (Filters_call (s\<lparr>tremolo := Tremolo []\<rparr>)) ''tremolo'' = None \<and>
   map_of (Filters_call (s\<lparr>vibrato := Vibrato []\<rparr>)) ''vibrato'' = None \<and>
   map_of (Filters_call (s\<lparr>rotation := Rotation []\<rparr>)) ''rotation'' = None \<and>
   map_of (Filters_call (s\<lparr>distortion := Distortion []\<rparr>)) ''distortion'' = None \<and>
   map_of (Filters_call (s\<lparr>channel_mix := ChannelMix []\<rparr>)) ''channelMix'' = None \<and>
   map_of (Filters_call (s\<lparr>low_pass := LowPass []\<rparr>)) ''lowPass'' = None \<and>
   map_of (Filters_call (s\<lparr>equalizer := Equalizer_init bands\<rparr>)) ''equalizer'' =
     Some (PList (map snd (Equalizer_payload (Equalizer_init bands)))) \<and>
   map_of (Filters_call (s\<lparr>equalizer := Equalizer_set options e\<rparr>)) ''equalizer'' =
     Some (PList (map snd (Equalizer_payload (Equalizer_set options e)))) \<and>
   map_of (Filters_call (s\<lparr>equalizer := Equalizer_reset e\<rparr>)) ''equalizer'' =
     Some (PList (map snd (Equalizer_payload (Equalizer_reset e)))) \<and>
   Filters_call (Filters_init None) =
     [(''equalizer'', PList (map (\<lambda>n. \<lparr>band = n, gain = 0\<rparr>) [0, 1, 2, 3, 4, 5, 6, 7, 8, 9, 10, 11, 12, 13, 14]))]"
proof -
  have eq: "map_of (Filters_call (s\<lparr>equalizer := x\<rparr>)) ''equalizer'' =
      Some (PList (map snd (Equalizer_payload x)))" if "Equalizer_wf x" for x
    using Equalizer_wf_not_Nil [OF that]
    by (simp add: map_of_Filters_call Filters_full_payload_def)
  have fresh: "Filters_call (Filters_init None) =
     [(''equalizer'', PList (map (\<lambda>n. \<lparr>band = n, gain = 0\<rparr>) [0, 1, 2, 3, 4, 5, 6, 7, 8, 9, 10, 11, 12, 13, 14]))]"
    by (simp add: Filters_call_filter Filters_init_def Filters_full_payload_def
      Equalizer_init_def default_bands_def upto_0_14)
  show ?thesis
    by (simp add: eq Equalizer_init_wf Equalizer_set_wf Equalizer_reset_wf fresh)
       (simp add: map_of_Filters_call Filters_full_payload_def)
qed

subsection \<open>C4: serialize, hydrate, serialize\<close>

text \<open>
  Claim C4. For an aggregate whose equalizer holds a table that the operations of
  \<^verbatim>\<open>Equalizer\<close> produce, hydrating a fresh aggregate from the output of
  \<^verbatim>\<open>__call__\<close> and calling it gives the same output again, keys in the same order.
\<close>

theorem serialize_round_trip:
  assumes "Equalizer_wf (equalizer s)"
  shows "Filters_call (Filters_init (Some (Filters_call s))) = Filters_call s"
  by (simp only: hydrate_serialized [OF assms] Filters_call_zero_volume)

text \<open>
  Claim C4 at a concrete input: the default aggregate with the volume set to 0 and a
  tremolo depth configured.
\<close>

theorem serialize_round_trip_witness:
  "Equalizer_wf (equalizer ((Filters_init None)\<lparr>volume := Some 0, tremolo := Tremolo [(''depth'', Some (1/2))]\<rparr>)) \<and>
   Filters_call (Filters_init (Some (Filters_call
       ((Filters_init None)\<lparr>volume := Some 0, tremolo := Tremolo [(''depth'', Some (1/2))]\<rparr>)))) =
   Filters_call ((Filters_init None)\<lparr>volume := Some 0, tremolo := Tremolo [(''depth'', Some (1/2))]\<rparr>)"
proof -
  have wf: "Equalizer_wf (equalizer ((Filters_init None)\<lparr>volume := Some 0, tremolo := Tremolo [(''depth'', Some (1/2))]\<rparr>))"
    by (simp add: Filters_init_wf)
  from serialize_round_trip [OF wf] wf show ?thesis by (simp only: simp_thms)
qed

subsection \<open>C5: equalizer hydration\<close>

text \<open>
  Claim C5 says that hydration through \<^verbatim>\<open>set\<close> with a list whose length is not 15
  gives the all-default table. \<^verbatim>\<open>Equalizer.set\<close> has no length test: a list of one
  entry, band 0 at gain 0.5, is applied and the result is not the default table.
\<close>

theorem Equalizer_set_short_list_counterexample:
  "Equalizer_payload (Equalizer_set [(''bands'', Some [\<lparr>band = 0, gain = 1/2\<rparr>])] (Equalizer_init None))
     \<noteq> default_bands"
  by (simp add: Equalizer_set_def dict_get_default_def Equalizer__set_def Equalizer_set_step_def
      default_bands_def upto_0_14)

text \<open>
  Claim C5, amended. Construction from a list of exactly 15 entries, and \<^verbatim>\<open>set\<close> with a
  list of any length, give the table \<^verbatim>\<open>_set\<close> builds: the keys 0 to 14, and under each
  key the last entry of the list that names this band, or the default entry at gain 0
  when no entry names it. Construction from no list or from a list whose length is not
  15, and \<^verbatim>\<open>set\<close> without \<^verbatim>\<open>bands\<close> or with \<^verbatim>\<open>bands=None\<close>, give the default table.
\<close>

theorem Equalizer_hydration:
  "Equalizer_payload (Equalizer_init (Some bands)) =
     (if length bands = 15 then Equalizer__set bands else default_bands) \<and>
   Equalizer_payload (Equalizer_init None) = default_bands \<and>
   Equalizer_payload (Equalizer_set [(''bands'', Some bands)] e) = Equalizer__set bands \<and>
   Equalizer_payload (Equalizer_set [(''bands'', None)] e) = default_bands \<and>
   Equalizer_payload (Equalizer_set [] e) = default_bands \<and>
   map fst (Equalizer__set bands) = [0..14] \<and>
   map_of (Equalizer__set bands) k =
     (if 0 \<le> k \<and> k \<le> 14
      then Some (case find (\<lambda>eq. band eq = k) (rev bands) of
                   Some eq \<Rightarrow> eq
                 | None \<Rightarrow> \<lparr>band = k, gain = 0\<rparr>)
      else None) \<and>
   default_bands = map (\<lambda>n. (n, \<lparr>band = n, gain = 0\<rparr>)) [0, 1, 2, 3, 4, 5, 6, 7, 8, 9, 10, 11, 12, 13, 14]"
proof -
  have "map_of (Equalizer__set bands) k =
     (if 0 \<le> k \<and> k \<le> 14
      then Some (case find (\<lambda>eq. band eq = k) (rev bands) of
                   Some eq \<Rightarrow> eq
                 | None \<Rightarrow> \<lparr>band = k, gain = 0\<rparr>)
      else None)"
    by (auto simp: Equalizer__set_def map_of_fold_set_step map_of_default_bands split: option.splits)
  moreover have "Equalizer_payload (Equalizer_init (Some bands)) =
     (if length bands = 15 then Equalizer__set bands else default_bands)"
    by (auto simp: Equalizer_init_def)
  ultimately show ?thesis
    by (simp add: Equalizer_init_def Equalizer_set_def dict_get_default_def Equalizer__set_keys
        default_bands_def upto_0_14)
qed

subsection \<open>C6: the fifteen slots of the equalizer\<close>

text \<open>
  Claim C6. After construction, after \<^verbatim>\<open>set\<close> and after \<^verbatim>\<open>reset\<close> the table of the
  equalizer has exactly the keys 0 to 14, once each and in this order, whatever the input
  was; and the entries of the input whose band is outside 0..14 play no part: the table
  built from a list is the table built from the list without them.
\<close>

theorem Equalizer_table_keys:
  "map fst (Equalizer_payload (Equalizer_init payload)) = [0, 1, 2, 3, 4, 5, 6, 7, 8, 9, 10, 11, 12, 13, 14] \<and>
   map fst (Equalizer_payload (Equalizer_set options e)) = [0, 1, 2, 3, 4, 5, 6, 7, 8, 9, 10, 11, 12, 13, 14] \<and>
   map fst (Equalizer_payload (Equalizer_reset e)) = [0, 1, 2, 3, 4, 5, 6, 7, 8, 9, 10, 11, 12, 13, 14] \<and>
   Equalizer__set bands = Equalizer__set (filter (\<lambda>eq. 0 \<le> band eq \<and> band eq \<le> 14) bands)"
proof -
  have "map fst (Equalizer_payload x) = [0, 1, 2, 3, 4, 5, 6, 7, 8, 9, 10, 11, 12, 13, 14]"
    if "Equalizer_wf x" for x
    using that by (simp add: Equalizer_wf_def upto_0_14)
  then show ?thesis
    by (simp add: Equalizer_init_wf Equalizer_set_wf Equalizer_reset_wf
        Equalizer__set_def fold_set_step_filter)
qed

subsection \<open>C7: \<^verbatim>\<open>reset\<close> on the units\<close>

text \<open>
  Claim C7 says that \<^verbatim>\<open>reset()\<close> followed by \<^verbatim>\<open>payload\<close> is the empty mapping for all
  nine units. For the equalizer it is not: after \<^verbatim>\<open>reset()\<close> its payload holds the
  fifteen default bands.
\<close>

theorem Equalizer_reset_payload_counterexample:
  "Equalizer_payload (Equalizer_reset (Equalizer_init None)) \<noteq> []"
  by (simp add: Equalizer_reset_def default_bands_def upto_0_14)

text \<open>
  Claim C7, amended. For the eight units other than the equalizer, \<^verbatim>\<open>reset()\<close> followed
  by \<^verbatim>\<open>payload\<close> is the empty mapping, whatever the state before; for the equalizer it is
  the table of the fifteen bands 0 to 14, each at gain 0.
\<close>

theorem reset_then_payload:
  "Karaoke_payload (Karaoke_reset k) = [] \<and>
   Timescale_payload (Timescale_reset t) = [] \<and>
   Tremolo_payload (Tremolo_reset tr) = [] \<and>
   Vibrato_payload (Vibrato_reset v) = [] \<and>
   Rotation_payload (Rotation_reset r) = [] \<and>
   Distortion_payload (Distortion_reset d) = [] \<and>
   ChannelMix_payload (ChannelMix_reset c) = [] \<and>
   LowPass_payload (LowPass_reset l) = [] \<and>
   Equalizer_payload (Equalizer_reset e) = map (\<lambda>n. (n, \<lparr>band = n, gain = 0\<rparr>)) [0..14] \<and>
   length (Equalizer_payload (Equalizer_reset e)) = 15"
  by (simp add: Karaoke_reset_def Timescale_reset_def Tremolo_reset_def Vibrato_reset_def
      Rotation_reset_def Distortion_reset_def ChannelMix_reset_def LowPass_reset_def
      Equalizer_reset_def default_bands_def upto_0_14)

subsection \<open>C8: \<^verbatim>\<open>set_filters\<close> with reset only\<close>

text \<open>
  Claim C8. Calling \<^verbatim>\<open>set_filters\<close> with no field but \<^verbatim>\<open>reset=True\<close> leaves the
  aggregate in the state that \<^verbatim>\<open>reset()\<close> leaves it in, whatever the state before: the
  volume is unset, the equalizer is the default table and the eight other units are empty.
\<close>

theorem set_filters_reset_only_is_reset:
  "Filters_set_filters [(''reset'', OBool True)] s = Filters_reset s \<and>
   Filters_reset s =
     \<lparr>volume = None, equalizer = EqualizerObj default_bands, karaoke = Karaoke [],
      timescale = Timescale [], tremolo = Tremolo [], vibrato = Vibrato [],
      rotation = Rotation [], distortion = Distortion [], channel_mix = ChannelMix [],
      low_pass = LowPass []\<rparr>"
  by (simp add: Filters_set_filters_def Filters__set_with_reset_def Filters_reset_def
      Filters__reset_def typed_get_def Equalizer_init_def)

subsection \<open>C9: a volume of zero\<close>

text \<open>
  Claim C9 says that a volume set to 0.0 is still emitted. On the default chain with the
  volume set to 0, the payload built by \<^verbatim>\<open>Filters.__call__\<close> holds \<^verbatim>\<open>"volume": 0.0\<close>
  before the loop, and the result of the call has no key \<^verbatim>\<open>volume\<close>: the test
  \<^verbatim>\<open>not value\<close> is true of a zero float.
\<close>

theorem serialize_drops_zero_volume:
  "map_of (Filters_full_payload (Filters_volume_setter 0 (Filters_init None))) ''volume'' = Some (PFloat 0) \<and>
   map_of (Filters_call (Filters_volume_setter 0 (Filters_init None))) ''volume'' = None"
  by (simp add: map_of_Filters_call Filters_full_payload_def Filters_volume_setter_def)

subsection \<open>C10: the units that rebuild their payload\<close>

text \<open>
  Claim C10. For Karaoke, Rotation, Distortion and ChannelMix, the payload after any call
  of \<^verbatim>\<open>set\<close> has an entry for every wire-format field name of the unit, whatever the
  options and the state before. A field that the call does not supply and that the
  previous payload does not hold gets the value \<^verbatim>\<open>None\<close>; in particular \<^verbatim>\<open>set()\<close> with
  no field on an empty unit gives a payload of all \<^verbatim>\<open>None\<close>. Such a payload is not
  empty, so \<^verbatim>\<open>Filters.__call__\<close> emits it under the unit's key.
\<close>

theorem rebuilt_payload_has_every_key:
  "map fst (Karaoke_payload (Karaoke_set options ka)) = [''level'', ''monoLevel'', ''filterBand'', ''filterWidth''] \<and>
   map fst (Rotation_payload (Rotation_set options ro)) = [''rotationHz''] \<and>
   map fst (Distortion_payload (Distortion_set options di)) = [''sinOffset'', ''sinScale'', ''cosOffset'', ''cosScale'', ''tanOffset'', ''tanScale'', ''offset'', ''scale''] \<and>
   map fst (ChannelMix_payload (ChannelMix_set options cm)) = [''leftToLeft'', ''leftToRight'', ''rightToLeft'', ''rightToRight''] \<and>
   (\<forall>(wire, field) \<in> set [(''level'', ''level''), (''monoLevel'', ''mono_level''), (''filterBand'', ''filter_band''), (''filterWidth'', ''filter_width'')].
      map_of options field = None \<and> map_of (Karaoke_payload ka) wire = None \<longrightarrow>
      map_of (Karaoke_payload (Karaoke_set options ka)) wire = Some None) \<and>
   (\<forall>(wire, field) \<in> set [(''rotationHz'', ''rotation_hz'')].
      map_of options field = None \<and> map_of (Rotation_payload ro) wire = None \<longrightarrow>
      map_of (Rotation_payload (Rotation_set options ro)) wire = Some None) \<and>
   (\<forall>(wire, field) \<in> set [(''sinOffset'', ''sin_offset''), (''sinScale'', ''sin_scale''), (''cosOffset'', ''cos_offset''), (''cosScale'', ''cos_scale''), (''tanOffset'', ''tan_offset''), (''tanScale'', ''tan_scale''), (''offset'', ''offset''), (''scale'', ''scale'')].
      map_of options field = None \<and> map_of (Distortion_payload di) wire = None \<longrightarrow>
      map_of (Distortion_payload (Distortion_set options di)) wire = Some None) \<and>
   (\<forall>(wire, field) \<in> set [(''leftToLeft'', ''left_to_left''), (''leftToRight'', ''left_to_right''), (''rightToLeft'', ''right_to_left''), (''rightToRight'', ''right_to_right'')].
      map_of options field = None \<and> map_of (ChannelMix_payload cm) wire = None \<longrightarrow>
      map_of (ChannelMix_payload (ChannelMix_set options cm)) wire = Some None) \<and>
   Karaoke_payload (Karaoke_set [] (Karaoke [])) = [(''level'', None), (''monoLevel'', None), (''filterBand'', None), (''filterWidth'', None)] \<and>
   Rotation_payload (Rotation_set [] (Rotation [])) = [(''rotationHz'', None)] \<and>
   Distortion_payload (Distortion_set [] (Distortion [])) = [(''sinOffset'', None), (''sinScale'', None), (''cosOffset'', None), (''cosScale'', None), (''tanOffset'', None), (''tanScale'', None), (''offset'', None), (''scale'', None)] \<and>
   ChannelMix_payload (ChannelMix_set [] (ChannelMix [])) = [(''leftToLeft'', None), (''leftToRight'', None), (''rightToLeft'', None), (''rightToRight'', None)] \<and>
   map_of (Filters_call (s\<lparr>karaoke := Karaoke_set options ka\<rparr>)) ''karaoke'' =
     Some (PDict (Karaoke_payload (Karaoke_set options ka))) \<and>
   map_of (Filters_call (s\<lparr>rotation := Rotation_set options ro\<rparr>)) ''rotation'' =
     Some (PDict (Rotation_payload (Rotation_set options ro))) \<and>
   map_of (Filters_call (s\<lparr>distortion := Distortion_set options di\<rparr>)) ''distortion'' =
     Some (PDict (Distortion_payload (Distortion_set options di))) \<and>
   map_of (Filters_call (s\<lparr>channel_mix := ChannelMix_set options cm\<rparr>)) ''channelMix'' =
     Some (PDict (ChannelMix_payload (ChannelMix_set options cm)))"
  by (simp add: Karaoke_set_def Rotation_set_def Distortion_set_def ChannelMix_set_def
      dict_get_default_def dict_get_def map_of_Filters_call Filters_full_payload_def)

text \<open>
  Claim C10 at a concrete input: \<^verbatim>\<open>set()\<close> with no field on the four empty units; the
  last field of each unit is in neither dictionary and is \<^verbatim>\<open>None\<close> afterwards.
\<close>

theorem rebuilt_payload_has_every_key_witness:
  "map_of ([] :: pyfloat dict) ''filter_width'' = None \<and> map_of (Karaoke_payload (Karaoke [])) ''filterWidth'' = None \<and>
   map_of (Karaoke_payload (Karaoke_set [] (Karaoke []))) ''filterWidth'' = Some None \<and>
   map_of ([] :: pyfloat dict) ''rotation_hz'' = None \<and> map_of (Rotation_payload (Rotation [])) ''rotationHz'' = None \<and>
   map_of (Rotation_payload (Rotation_set [] (Rotation []))) ''rotationHz'' = Some None \<and>
   map_of ([] :: pyfloat dict) ''scale'' = None \<and> map_of (Distortion_payload (Distortion [])) ''scale'' = None \<and>
   map_of (Distortion_payload (Distortion_set [] (Distortion []))) ''scale'' = Some None \<and>
   map_of ([] :: pyfloat dict) ''right_to_right'' = None \<and> map_of (ChannelMix_payload (ChannelMix [])) ''rightToRight'' = None \<and>
   map_of (ChannelMix_payload (ChannelMix_set [] (ChannelMix []))) ''rightToRight'' = Some None"
  using rebuilt_payload_has_every_key [of "[]" "Karaoke []" "Rotation []" "Distortion []" "ChannelMix []"]
  by simp

end
